theory Spec2Isabelle
  imports Complex_Main "HOL-Library.Product_Lexorder" "HOL-Library.Sublist"
    "HOL-Library.Char_ord" "HOL-Library.List_Lexorder"
begin

section \<open>Data model\<close>

text \<open>
  The documents of \<^verbatim>\<open>models/resource.py\<close>, \<^verbatim>\<open>models/user.py\<close> and
  \<^verbatim>\<open>models/feedback.py\<close>, with the fields the recommendation and search code reads.
  Identifiers are the strings that \<^verbatim>\<open>str(doc.id)\<close> yields. Floats are modelled as
  reals, \<^verbatim>\<open>created_at\<close> as an integer time stamp. A field that may be \<^verbatim>\<open>None\<close>
  is an option.
\<close>

record resource =
  res_id :: string
  res_title :: string
  res_description :: string
  res_type :: string
  res_difficulty :: string
  res_tags :: "string list"
  res_category :: "string option"
  res_likes :: int
  res_rating :: real
  res_embedding :: "real list option"
  res_created_at :: int

record user =
  user_id :: string
  user_interests :: "string list"
  user_skill_level :: "string option"
  user_interactions :: "string list"

record feedback =
  fb_user :: string
  fb_resource :: string
  fb_helpful :: "bool option"
  fb_created_at :: int

text \<open>
  The document store: each collection in its natural order. A \<^verbatim>\<open>QuerySet\<close> is the
  list of the documents that match, in that order; \<^verbatim>\<open>order_by\<close> is a stable sort of
  it and \<^verbatim>\<open>limit(n)\<close>, only ever called with a positive \<^verbatim>\<open>n\<close>, keeps the first
  \<^verbatim>\<open>n\<close>.
\<close>

record store =
  resources :: "resource list"
  users :: "user list"
  feedbacks :: "feedback list"

text \<open>A dictionary produced by \<^verbatim>\<open>Resource.to_dict\<close> with the two recommendation keys added.\<close>

record recommendation =
  rec_resource :: resource
  recommendation_reason :: string
  recommendation_score :: real

section \<open>Python and query helpers\<close>

text \<open>Python's \<^verbatim>\<open>xs[:k]\<close> on a list: a negative bound counts from the end.\<close>

definition py_slice_to :: "int \<Rightarrow> 'a list \<Rightarrow> 'a list" where
  "py_slice_to k xs =
     (if 0 \<le> k then take (nat k) xs else take (length xs - nat (- k)) xs)"

text \<open>\<^verbatim>\<open>order_by('-rating', '-likes')\<close> and \<^verbatim>\<open>order_by('-created_at', '-likes')\<close>.\<close>

definition order_by_rating_likes :: "resource list \<Rightarrow> resource list" where
  "order_by_rating_likes rs = sort_key (\<lambda>r. (- res_rating r, - res_likes r)) rs"

definition order_by_created_likes :: "resource list \<Rightarrow> resource list" where
  "order_by_created_likes rs = sort_key (\<lambda>r. (- res_created_at r, - res_likes r)) rs"

definition rec_ids :: "recommendation list \<Rightarrow> string list" where
  "rec_ids recs = map (\<lambda>r. res_id (rec_resource r)) recs"

definition mk_rec :: "string \<Rightarrow> real \<Rightarrow> resource \<Rightarrow> recommendation" where
  "mk_rec reason score c =
     \<lparr>rec_resource = c, recommendation_reason = reason, recommendation_score = score\<rparr>"

section \<open>Cold start\<close>

text \<open>
  The two loops of \<^verbatim>\<open>get_cold_start_recommendations\<close> that walk a query result and
  append the courses not yet recommended until \<^verbatim>\<open>added_count\<close> reaches its bound.
\<close>

fun add_unseen ::
  "string \<Rightarrow> real \<Rightarrow> int \<Rightarrow> resource list \<Rightarrow> int \<Rightarrow> recommendation list \<Rightarrow> recommendation list"
where
  "add_unseen reason score bound [] added_count recommendations = recommendations"
| "add_unseen reason score bound (course # courses) added_count recommendations =
     (if added_count \<ge> bound then recommendations
      else if \<not> list_ex (\<lambda>r. res_id (rec_resource r) = res_id course) recommendations
      then add_unseen reason score bound courses (added_count + 1)
             (recommendations @ [mk_rec reason score course])
      else add_unseen reason score bound courses added_count recommendations)"

definition get_cold_start_recommendations :: "store \<Rightarrow> user \<Rightarrow> int \<Rightarrow> recommendation list" where
  "get_cold_start_recommendations db usr limit =
     (let beginner_limit = max 1 (limit div 3);
          beginner_courses =
            take (nat beginner_limit)
              (order_by_rating_likes (filter (\<lambda>r. res_difficulty r = ''Beginner'') (resources db)));
          recommendations = map (mk_rec ''Great for beginners'' 5) beginner_courses;
          popular_limit = max 1 (limit div 3);
          popular_courses =
            take (nat (popular_limit * 2)) (order_by_rating_likes (resources db));
          recommendations =
            add_unseen ''Highly rated by learners'' 4 popular_limit popular_courses 0 recommendations;
          remaining = limit - int (length recommendations);
          recommendations =
            (if remaining > 0
             then add_unseen ''Trending content'' 3 remaining
                    (take (nat (remaining * 2)) (order_by_created_likes (resources db)))
                    0 recommendations
             else recommendations)
      in py_slice_to limit recommendations)"







text \<open>A store of three Intermediate resources and a new user, for concrete runs.\<close>

definition mk_resource :: "string \<Rightarrow> string \<Rightarrow> string list \<Rightarrow> int \<Rightarrow> real \<Rightarrow> int \<Rightarrow> resource" where
  "mk_resource i d ts l r c =
     \<lparr>res_id = i, res_title = i, res_description = i, res_type = ''course'',
      res_difficulty = d, res_tags = ts, res_category = None, res_likes = l,
      res_rating = r, res_embedding = None, res_created_at = c\<rparr>"



section \<open>Content-based filtering\<close>

text \<open>Python's \<^verbatim>\<open>sep.join(xs)\<close> and \<^verbatim>\<open>str(n)\<close> for a natural number.\<close>

fun py_join :: "string \<Rightarrow> string list \<Rightarrow> string" where
  "py_join sep [] = []"
| "py_join sep [x] = x"
| "py_join sep (x # y # ys) = x @ sep @ py_join sep (y # ys)"

fun str_nat :: "nat \<Rightarrow> string" where
  "str_nat n = (if n < 10 then [''0123456789'' ! n]
                else str_nat (n div 10) @ [''0123456789'' ! (n mod 10)])"

declare str_nat.simps [simp del]

text \<open>\<^verbatim>\<open>len(set(resource.tags) & set(user_interests))\<close>\<close>

definition interest_overlap :: "resource \<Rightarrow> string list \<Rightarrow> nat" where
  "interest_overlap r interests = card (set (res_tags r) \<inter> set interests)"

text \<open>
  The body of the loop of \<^verbatim>\<open>_apply_content_based_filtering\<close>: the score and the
  reasons of one resource. \<^verbatim>\<open>resource.likes / 10\<close> is Python's true division.
\<close>

definition content_score :: "user \<Rightarrow> resource \<Rightarrow> real" where
  "content_score usr r =
     (let score = 0;
          overlap = interest_overlap r (user_interests usr);
          score = (if overlap > 0 then score + real overlap * 2 else score);
          score = (if Some (res_difficulty r) = user_skill_level usr then score + 3 else score);
          score = score + res_rating r;
          score = score + min (real_of_int (res_likes r) / 10) 2
      in score)"

definition content_reasons :: "user \<Rightarrow> resource \<Rightarrow> string list" where
  "content_reasons usr r =
     (let overlap = interest_overlap r (user_interests usr) in
      (if overlap > 0 then [''Matches '' @ str_nat overlap @ '' of your interests''] else [])
      @ (if Some (res_difficulty r) = user_skill_level usr
         then [''Matches your skill level''] else []))"

definition content_candidate :: "user \<Rightarrow> resource \<Rightarrow> recommendation list" where
  "content_candidate usr r =
     (if content_score usr r > 0
      then [mk_rec (if content_reasons usr r = [] then ''Popular content''
                    else py_join ''; '' (content_reasons usr r))
              (content_score usr r) r]
      else [])"

text \<open>
  \<^verbatim>\<open>resources[:limit * 2]\<close> slices a query: no document for a bound of zero, and an
  exception for a negative one, which the handler turns into the empty list, as the
  model's \<open>take\<close> and \<open>py_slice_to\<close> do. The sort is Python's stable sort with
  \<^verbatim>\<open>reverse=True\<close>: descending, equal scores in their original order.
\<close>

definition apply_content_based_filtering ::
  "user \<Rightarrow> resource list \<Rightarrow> int \<Rightarrow> recommendation list" where
  "apply_content_based_filtering usr rs limit =
     (let recommendations = concat (map (content_candidate usr) (take (nat (limit * 2)) rs));
          recommendations = sort_key (\<lambda>x. - recommendation_score x) recommendations
      in py_slice_to limit recommendations)"

section \<open>Collaborative filtering\<close>

text \<open>
  \<^verbatim>\<open>User.objects(interests__in=user.interests or [], skill_level=user.skill_level)\<close>:
  a user matches when one of its interests is in the list and the skill level is equal.
\<close>

definition similar_user :: "user \<Rightarrow> user \<Rightarrow> bool" where
  "similar_user usr v \<longleftrightarrow>
     list_ex (\<lambda>i. i \<in> set (user_interests usr)) (user_interests v)
     \<and> user_skill_level v = user_skill_level usr"

definition similar_user_ids :: "store \<Rightarrow> user \<Rightarrow> string list" where
  "similar_user_ids db usr =
     filter (\<lambda>i. i \<noteq> user_id usr)
       (map user_id (take 50 (filter (similar_user usr) (users db))))"

definition liked_feedback :: "store \<Rightarrow> string list \<Rightarrow> feedback list" where
  "liked_feedback db ids =
     sort_key (\<lambda>f. - fb_created_at f)
       (filter (\<lambda>f. fb_user f \<in> set ids \<and> fb_helpful f = Some True) (feedbacks db))"

text \<open>
  The dictionary \<^verbatim>\<open>resource_scores\<close>, in insertion order, and the loop that counts
  the feedback records of each resource in it.
\<close>

fun bump_score :: "string \<Rightarrow> (string \<times> nat) list \<Rightarrow> (string \<times> nat) list" where
  "bump_score k [] = [(k, 0 + 1)]"
| "bump_score k ((k', c) # kcs) =
     (if k' = k then (k', c + 1) # kcs else (k', c) # bump_score k kcs)"

fun count_scores :: "feedback list \<Rightarrow> (string \<times> nat) list \<Rightarrow> (string \<times> nat) list" where
  "count_scores [] resource_scores = resource_scores"
| "count_scores (f # fs) resource_scores =
     count_scores fs (bump_score (fb_resource f) resource_scores)"

definition find_resource :: "store \<Rightarrow> string \<Rightarrow> resource option" where
  "find_resource db i = find (\<lambda>r. res_id r = i) (resources db)"

definition collaborative_rec :: "store \<Rightarrow> string \<times> nat \<Rightarrow> recommendation list" where
  "collaborative_rec db kc =
     (case find_resource db (fst kc) of
        None \<Rightarrow> []
      | Some resource \<Rightarrow>
          [mk_rec ''Users with similar interests liked this'' (real (snd kc)) resource])"

text \<open>
  \<^verbatim>\<open>feedback.resource\<close> dereferences the stored reference and raises when the resource
  is gone; the handler of the function then returns the empty list. The parameter
  \<^verbatim>\<open>resources\<close> is never read by the source.
\<close>

definition apply_collaborative_filtering ::
  "store \<Rightarrow> user \<Rightarrow> resource list \<Rightarrow> int \<Rightarrow> recommendation list" where
  "apply_collaborative_filtering db usr rs limit =
     (let ids = similar_user_ids db usr in
      if ids = [] then []
      else
        let liked = liked_feedback db ids in
        if list_ex (\<lambda>f. find_resource db (fb_resource f) = None) liked then []
        else
          let resource_scores = count_scores liked [];
              sorted_resources = sort_key (\<lambda>kc. - int (snd kc)) resource_scores
          in concat (map (collaborative_rec db) (py_slice_to limit sorted_resources)))"

section \<open>Personalized recommendations\<close>

text \<open>
  The \<^verbatim>\<open>filters\<close> dictionary: a key that is absent and a key with an empty value behave
  alike in the source (\<^verbatim>\<open>filters.get(k)\<close> is tested for truth), so each key is a
  list or string that may be empty.
\<close>

record filters =
  flt_type :: "string list"
  flt_difficulty :: "string list"
  flt_topics :: "string list"
  flt_sortBy :: string

definition filters_truthy :: "filters option \<Rightarrow> bool" where
  "filters_truthy fo \<longleftrightarrow>
     (case fo of None \<Rightarrow> False
      | Some f \<Rightarrow> \<not> (flt_type f = [] \<and> flt_difficulty f = [] \<and> flt_topics f = []
                       \<and> flt_sortBy f = []))"

definition flt_get :: "filters option \<Rightarrow> (filters \<Rightarrow> 'a list) \<Rightarrow> 'a list" where
  "flt_get fo key = (case fo of None \<Rightarrow> [] | Some f \<Rightarrow> key f)"

text \<open>The query that \<^verbatim>\<open>get_personalized_recommendations\<close> builds, as a predicate.\<close>

definition candidate_query :: "user \<Rightarrow> filters option \<Rightarrow> resource \<Rightarrow> bool" where
  "candidate_query usr fo r \<longleftrightarrow>
     (let interests = user_interests usr;
          skill_level =
            (case user_skill_level usr of None \<Rightarrow> ''Beginner''
             | Some s \<Rightarrow> if s = [] then ''Beginner'' else s);
          interacted_resource_ids = user_interactions usr
      in (flt_get fo flt_type = [] \<or> res_type r \<in> set (flt_get fo flt_type))
         \<and> (if flt_get fo flt_difficulty \<noteq> []
             then res_difficulty r \<in> set (flt_get fo flt_difficulty)
             else res_difficulty r = skill_level)
         \<and> (if interests \<noteq> [] \<and> flt_get fo flt_topics = []
             then list_ex (\<lambda>t. t \<in> set interests) (res_tags r)
             else flt_get fo flt_topics = []
                  \<or> list_ex (\<lambda>t. t \<in> set (flt_get fo flt_topics)) (res_tags r))
         \<and> res_id r \<notin> set interacted_resource_ids)"

definition sort_recommendations :: "recommendation list \<Rightarrow> string \<Rightarrow> recommendation list" where
  "sort_recommendations recommendations sort_by =
     (if sort_by = ''rating''
      then sort_key (\<lambda>x. - res_rating (rec_resource x)) recommendations
      else if sort_by = ''likes''
      then sort_key (\<lambda>x. - res_likes (rec_resource x)) recommendations
      else if sort_by = ''newest''
      then sort_key (\<lambda>x. - res_created_at (rec_resource x)) recommendations
      else if sort_by = ''relevance''
      then sort_key (\<lambda>x. - recommendation_score x) recommendations
      else recommendations)"

definition get_personalized_recommendations ::
  "store \<Rightarrow> user \<Rightarrow> int \<Rightarrow> filters option \<Rightarrow> recommendation list" where
  "get_personalized_recommendations db usr limit fo =
     (let rs = order_by_rating_likes (filter (candidate_query usr fo) (resources db));
          recommendations = apply_collaborative_filtering db usr rs limit;
          recommendations =
            (if int (length recommendations) < limit
             then recommendations
                  @ apply_content_based_filtering usr rs (limit - int (length recommendations))
             else recommendations);
          recommendations =
            (if filters_truthy fo \<and> flt_get fo flt_sortBy \<noteq> []
             then sort_recommendations recommendations (flt_get fo flt_sortBy)
             else recommendations)
      in py_slice_to limit recommendations)"

text \<open>
  A store for concrete runs: a Beginner resource tagged python, a learner \<open>ann\<close> and a
  peer \<open>bob\<close> with the same interest and skill level who found the resource helpful.
\<close>

definition py_resource :: resource where
  "py_resource = mk_resource ''r1'' ''Beginner'' [''python''] 0 4 1"

definition ann :: user where
  "ann = \<lparr>user_id = ''ann'', user_interests = [''python''],
          user_skill_level = Some ''Beginner'', user_interactions = []\<rparr>"

definition ann_seen :: user where
  "ann_seen = ann\<lparr>user_interactions := [''r1'']\<rparr>"

definition bob :: user where
  "bob = \<lparr>user_id = ''bob'', user_interests = [''python''],
          user_skill_level = Some ''Beginner'', user_interactions = []\<rparr>"

definition peer_store :: store where
  "peer_store =
     \<lparr>resources = [py_resource], users = [ann, bob],
      feedbacks = [\<lparr>fb_user = ''bob'', fb_resource = ''r1'', fb_helpful = Some True,
                    fb_created_at = 5\<rparr>]\<rparr>"

text \<open>The content-based score as the scorer's contract gives it, term by term.\<close>

definition content_score_formula :: "user \<Rightarrow> resource \<Rightarrow> real" where
  "content_score_formula usr r =
     2 * real (card (set (res_tags r) \<inter> set (user_interests usr)))
     + (if Some (res_difficulty r) = user_skill_level usr then 3 else 0)
     + res_rating r
     + min (real_of_int (res_likes r) / 10) 2"

definition dull_resource :: resource where
  "dull_resource = mk_resource ''r0'' ''Advanced'' [''cobol''] 0 0 0"

section \<open>Embeddings and cosine similarity\<close>

text \<open>
  The exceptions the modelled code can raise: \<^verbatim>\<open>ValueError\<close> from
  \<^verbatim>\<open>cosine_similarity\<close> and \<^verbatim>\<open>AttributeError\<close> from a method call on \<^verbatim>\<open>None\<close>.
\<close>

datatype error = ValueError | AttributeError

text \<open>
  \<^verbatim>\<open>MLService\<close>: the sentence model is \<^verbatim>\<open>None\<close> until it has been loaded; a loaded
  model encodes a text as a vector.
\<close>

record ml_service =
  sentence_model :: "(string \<Rightarrow> real list) option"

text \<open>
  scikit-learn's \<^verbatim>\<open>cosine_similarity\<close> on two single rows, over the reals: both rows
  are scaled by their Euclidean norm, a zero norm counting as 1, and multiplied. It raises
  \<^verbatim>\<open>ValueError\<close> when a row has no component or the rows differ in length.
\<close>

definition row_norm :: "real list \<Rightarrow> real" where
  "row_norm x = sqrt (sum_list (map (\<lambda>v. v * v) x))"

definition normalize :: "real list \<Rightarrow> real list" where
  "normalize x = (let n = row_norm x in map (\<lambda>v. v / (if n = 0 then 1 else n)) x)"

definition cosine :: "real list \<Rightarrow> real list \<Rightarrow> real" where
  "cosine x y = sum_list (map2 (*) (normalize x) (normalize y))"

definition cosine_similarity :: "real list \<Rightarrow> real list \<Rightarrow> error + real" where
  "cosine_similarity x y =
     (if x = [] \<or> y = [] \<or> length x \<noteq> length y then Inl ValueError
      else Inr (cosine x y))"

section \<open>Semantic search\<close>

record hit =
  hit_resource :: resource
  similarity :: real

text \<open>\<^verbatim>\<open>'embedding' in resource and resource['embedding']\<close>\<close>

definition has_embedding :: "resource \<Rightarrow> bool" where
  "has_embedding r = (case res_embedding r of None \<Rightarrow> False | Some e \<Rightarrow> e \<noteq> [])"

text \<open>
  The loop of \<^verbatim>\<open>MLService.semantic_search\<close> over the candidates. An exception of
  \<^verbatim>\<open>cosine_similarity\<close> leaves the loop: nothing inside it catches.
\<close>

fun similarities :: "real list \<Rightarrow> resource list \<Rightarrow> error + hit list" where
  "similarities query_embedding [] = Inr []"
| "similarities query_embedding (r # rs) =
     (case res_embedding r of
        None \<Rightarrow> similarities query_embedding rs
      | Some e \<Rightarrow>
          if e = [] then similarities query_embedding rs
          else (case cosine_similarity query_embedding e of
                  Inl err \<Rightarrow> Inl err
                | Inr s \<Rightarrow>
                    (case similarities query_embedding rs of
                       Inl err \<Rightarrow> Inl err
                     | Inr hits \<Rightarrow> Inr (\<lparr>hit_resource = r, similarity = s\<rparr> # hits))))"

text \<open>
  \<^verbatim>\<open>MLService.semantic_search\<close>. The \<^verbatim>\<open>except Exception\<close> around the whole body
  returns the empty list.
\<close>

definition ml_semantic_search :: "ml_service \<Rightarrow> string \<Rightarrow> resource list \<Rightarrow> int \<Rightarrow> hit list" where
  "ml_semantic_search ml query resource_embeddings top_k =
     (case sentence_model ml of
        None \<Rightarrow> []
      | Some encode \<Rightarrow>
          if resource_embeddings = [] then []
          else (case similarities (encode query) resource_embeddings of
                  Inl err \<Rightarrow> []
                | Inr hits \<Rightarrow> py_slice_to top_k (sort_key (\<lambda>h. - similarity h) hits)))"

section \<open>Keyword search\<close>

text \<open>
  \<^verbatim>\<open>str.lower\<close>, \<^verbatim>\<open>str.split()\<close> on white space and the substring test
  \<^verbatim>\<open>a in b\<close>, for ASCII text.
\<close>

definition py_lower :: "string \<Rightarrow> string" where
  "py_lower s =
     map (\<lambda>c. case map_of (zip ''ABCDEFGHIJKLMNOPQRSTUVWXYZ'' ''abcdefghijklmnopqrstuvwxyz'') c of
                 None \<Rightarrow> c | Some l \<Rightarrow> l) s"

definition is_space :: "char \<Rightarrow> bool" where
  "is_space c \<longleftrightarrow>
     c \<in> set [CHR '' '', CHR 0x09, CHR 0x0A, CHR 0x0B, CHR 0x0C, CHR 0x0D,
                CHR 0x1C, CHR 0x1D, CHR 0x1E, CHR 0x1F]"

fun split_from :: "string \<Rightarrow> string \<Rightarrow> string list" where
  "split_from word [] = (if word = [] then [] else [word])"
| "split_from word (c # cs) =
     (if is_space c then (if word = [] then [] else [word]) @ split_from [] cs
      else split_from (word @ [c]) cs)"

definition py_split :: "string \<Rightarrow> string list" where
  "py_split s = split_from [] s"

fun starts_with :: "string \<Rightarrow> string \<Rightarrow> bool" where
  "starts_with [] s = True"
| "starts_with (a # as) [] = False"
| "starts_with (a # as) (c # cs) = (a = c \<and> starts_with as cs)"

fun py_in :: "string \<Rightarrow> string \<Rightarrow> bool" where
  "py_in a [] = (a = [])"
| "py_in a (c # cs) = (starts_with a (c # cs) \<or> py_in a cs)"

text \<open>
  A search result: a resource dictionary with \<^verbatim>\<open>similarity_score\<close> (its reason text
  only prints that score), or one with \<^verbatim>\<open>search_score\<close> and \<^verbatim>\<open>search_reason\<close>.
\<close>

datatype search_result = Semantic resource real | Keyword resource nat string

fun search_score :: "search_result \<Rightarrow> nat" where
  "search_score (Keyword r score reason) = score"
| "search_score (Semantic r s) = 0"

definition keyword_score :: "string \<Rightarrow> resource \<Rightarrow> nat \<times> string list" where
  "keyword_score query r =
     (let query_lower = py_lower query;
          keywords = py_split query_lower;
          score = 0;
          reasons = [];
          title_lower = py_lower (res_title r);
          title_matches = length (filter (\<lambda>keyword. py_in keyword title_lower) keywords);
          (score, reasons) =
            (if title_matches > 0
             then (score + title_matches * 3, reasons @ [''Title matches: '' @ str_nat title_matches])
             else (score, reasons));
          desc_lower = py_lower (res_description r);
          desc_matches = length (filter (\<lambda>keyword. py_in keyword desc_lower) keywords);
          (score, reasons) =
            (if desc_matches > 0
             then (score + desc_matches * 2,
                   reasons @ [''Description matches: '' @ str_nat desc_matches])
             else (score, reasons));
          tags_lower = map py_lower (res_tags r);
          tag_matches =
            length (concat (map (\<lambda>keyword. filter (\<lambda>tag. py_in keyword tag) tags_lower) keywords));
          (score, reasons) =
            (if tag_matches > 0
             then (score + tag_matches * 2, reasons @ [''Tag matches: '' @ str_nat tag_matches])
             else (score, reasons));
          (score, reasons) =
            (case res_category r of
               None \<Rightarrow> (score, reasons)
             | Some category \<Rightarrow>
                 if category \<noteq> [] \<and> py_in query_lower (py_lower category)
                 then (score + 2, reasons @ [''Category match''])
                 else (score, reasons))
      in (score, reasons))"

definition keyword_search :: "store \<Rightarrow> string \<Rightarrow> int \<Rightarrow> search_result list" where
  "keyword_search db query limit =
     (let scored_resources =
            concat (map (\<lambda>r. case keyword_score query r of
                                (score, reasons) \<Rightarrow>
                                  if score > 0 then [Keyword r score (py_join ''; '' reasons)]
                                  else [])
                      (resources db));
          scored_resources = sort_key (\<lambda>x. - int (search_score x)) scored_resources
      in py_slice_to limit scored_resources)"

text \<open>
  \<^verbatim>\<open>SearchService.semantic_search\<close>. \<^verbatim>\<open>embedding__exists=True\<close> selects the resources
  that have the field. The keyword search is reached when no resource has an embedding
  or when an exception arrives; \<^verbatim>\<open>ml_service.semantic_search\<close> raises none.
\<close>

definition semantic_search :: "ml_service \<Rightarrow> store \<Rightarrow> string \<Rightarrow> int \<Rightarrow> search_result list" where
  "semantic_search ml db query limit =
     (let rs = filter (\<lambda>r. res_embedding r \<noteq> None) (resources db) in
      if rs = [] then keyword_search db query limit
      else
        let search_results = ml_semantic_search ml query rs limit
        in map (\<lambda>result. Semantic (hit_resource result) (similarity result)) search_results)"

text \<open>
  The ranking of the similarity engine's contract: by similarity descending, ties by
  rating descending, then likes descending, then id ascending.
\<close>

definition ranked_before :: "hit \<Rightarrow> hit \<Rightarrow> bool" where
  "ranked_before a b \<longleftrightarrow>
     (- similarity a, - res_rating (hit_resource a), - res_likes (hit_resource a),
        res_id (hit_resource a))
     \<le> (- similarity b, - res_rating (hit_resource b), - res_likes (hit_resource b),
        res_id (hit_resource b))"

text \<open>Services and resources with embeddings, for concrete runs.\<close>

definition ml_down :: ml_service where
  "ml_down = \<lparr>sentence_model = None\<rparr>"

definition unit_encoder :: "string \<Rightarrow> real list" where
  "unit_encoder text = [1, 0]"

definition ml_up :: ml_service where
  "ml_up = \<lparr>sentence_model = Some unit_encoder\<rparr>"

definition with_embedding :: "real list \<Rightarrow> resource \<Rightarrow> resource" where
  "with_embedding e r = r\<lparr>res_embedding := Some e\<rparr>"

definition low_rated :: resource where
  "low_rated = with_embedding [1, 0] (mk_resource ''a'' ''Beginner'' [''python''] 0 1 1)"

definition high_rated :: resource where
  "high_rated = with_embedding [1, 0] (mk_resource ''b'' ''Beginner'' [''python''] 0 5 2)"

definition malformed :: resource where
  "malformed = with_embedding [1, 0, 0] (mk_resource ''c'' ''Beginner'' [''python''] 0 3 3)"

definition embedded_store :: store where
  "embedded_store = \<lparr>resources = [low_rated, high_rated], users = [], feedbacks = []\<rparr>"

section \<open>Task recommendations\<close>

text \<open>
  \<^verbatim>\<open>Task\<close> of \<^verbatim>\<open>models/notification.py\<close> and \<^verbatim>\<open>TaskFeedback\<close> of
  \<^verbatim>\<open>models/feedback.py\<close>. The tags of a task are one string.
\<close>

record task =
  task_id :: string
  task_tags :: "string option"
  task_category :: "string option"
  task_skill_level :: "string option"
  task_embedding :: "real list option"
  task_is_active :: bool

record task_feedback =
  tf_user :: string
  tf_task_id :: string
  tf_helpful :: bool
  tf_difficulty_rating :: "int option"

record task_store =
  tasks :: "task list"
  task_feedbacks :: "task_feedback list"

text \<open>
  The recommendation reason of a returned task, one constructor for each text the route
  writes: the text of the embedding-based stage (which shows the score, rounded), the
  text for a task of an interest's category, the text for a task of a mapped category,
  the text for a task of the user's level, and the four texts that the final fill chooses
  from the tags.
\<close>

datatype task_reason =
    MLRecommended real
  | InterestTask string
  | CategoryTask string string
  | SuitableFor string
  | ProgrammingFundamentals
  | BuildMLSkills
  | DataAnalysisSkills
  | PopularTask

record task_dict =
  td_task :: task
  completed :: bool
  td_reason :: task_reason

datatype response = Success "task_dict list" | AccessDenied | ServerError

text \<open>\<^verbatim>\<open>TaskFeedback.objects(user=current_user)\<close> and the test whether a feedback exists.\<close>

definition user_feedback_history :: "task_store \<Rightarrow> user \<Rightarrow> task_feedback list" where
  "user_feedback_history ts usr = filter (\<lambda>f. tf_user f = user_id usr) (task_feedbacks ts)"

definition has_feedback :: "task_store \<Rightarrow> user \<Rightarrow> string \<Rightarrow> bool" where
  "has_feedback ts usr tid \<longleftrightarrow>
     list_ex (\<lambda>f. tf_user f = user_id usr \<and> tf_task_id f = tid) (task_feedbacks ts)"

definition to_task_dict :: "task_store \<Rightarrow> user \<Rightarrow> task_reason \<Rightarrow> task \<Rightarrow> task_dict" where
  "to_task_dict ts usr reason t =
     \<lparr>td_task = t, completed = has_feedback ts usr (task_id t), td_reason = reason\<rparr>"

definition find_task :: "task_store \<Rightarrow> string \<Rightarrow> task option" where
  "find_task ts tid = find (\<lambda>t. task_id t = tid) (tasks ts)"

subsection \<open>The embedding-based stage\<close>

text \<open>
  The inner loop over the feedback history: each helpful record whose task exists and
  has a non-empty embedding adds 0.3 times its similarity to the candidate.
\<close>

fun feedback_boost ::
  "task_store \<Rightarrow> real list \<Rightarrow> task_feedback list \<Rightarrow> real \<Rightarrow> error + real" where
  "feedback_boost ts task_emb [] boost = Inr boost"
| "feedback_boost ts task_emb (f # fs) boost =
     (if tf_helpful f then
        (case find_task ts (tf_task_id f) of
           None \<Rightarrow> feedback_boost ts task_emb fs boost
         | Some similar_task \<Rightarrow>
             (case task_embedding similar_task of
                None \<Rightarrow> feedback_boost ts task_emb fs boost
              | Some e \<Rightarrow>
                  if e = [] then feedback_boost ts task_emb fs boost
                  else (case cosine_similarity task_emb e of
                          Inl err \<Rightarrow> Inl err
                        | Inr feedback_similarity \<Rightarrow>
                            feedback_boost ts task_emb fs (boost + feedback_similarity * 0.3))))
      else feedback_boost ts task_emb fs boost)"

text \<open>The body of the \<^verbatim>\<open>try\<close> for one candidate task: its final score, or the exception.\<close>

definition final_score ::
  "task_store \<Rightarrow> user \<Rightarrow> real list \<Rightarrow> task_feedback list \<Rightarrow> task \<Rightarrow> error + real" where
  "final_score ts usr query_embedding feedback_data t =
     (let task_emb = (case task_embedding t of None \<Rightarrow> [] | Some e \<Rightarrow> e) in
      case cosine_similarity query_embedding task_emb of
        Inl err \<Rightarrow> Inl err
      | Inr sim \<Rightarrow>
          (case feedback_boost ts task_emb feedback_data 0 of
             Inl err \<Rightarrow> Inl err
           | Inr boost \<Rightarrow>
               let skill_bonus = (if task_skill_level t = user_skill_level usr then 0.1 else 0)
               in Inr (sim + boost + skill_bonus)))"

text \<open>
  The loop over all active tasks with an embedding: a task with feedback is skipped, and
  so is one whose scoring raises (the \<^verbatim>\<open>except\<close> inside the loop continues).
\<close>

fun score_tasks ::
  "task_store \<Rightarrow> user \<Rightarrow> real list \<Rightarrow> task_feedback list \<Rightarrow> task list \<Rightarrow> (task \<times> real) list"
where
  "score_tasks ts usr query_embedding feedback_data [] = []"
| "score_tasks ts usr query_embedding feedback_data (t # all_tasks) =
     (if task_id t \<in> set (map tf_task_id feedback_data)
      then score_tasks ts usr query_embedding feedback_data all_tasks
      else (case final_score ts usr query_embedding feedback_data t of
              Inl task_error \<Rightarrow> score_tasks ts usr query_embedding feedback_data all_tasks
            | Inr score \<Rightarrow>
                (t, score) # score_tasks ts usr query_embedding feedback_data all_tasks))"

definition interest_query :: "user \<Rightarrow> string" where
  "interest_query usr =
     (if user_interests usr \<noteq> [] then py_join '' '' (user_interests usr)
      else ''learning programming'')"

definition embedded_tasks :: "task_store \<Rightarrow> task list" where
  "embedded_tasks ts = filter (\<lambda>t. task_is_active t \<and> task_embedding t \<noteq> None) (tasks ts)"

text \<open>\<^verbatim>\<open>task_scores\<close> after the sort, for a loaded model.\<close>

definition task_scores ::
  "(string \<Rightarrow> real list) \<Rightarrow> task_store \<Rightarrow> user \<Rightarrow> (task \<times> real) list" where
  "task_scores encode ts usr =
     sort_key (\<lambda>x. - snd x)
       (score_tasks ts usr (encode (interest_query usr)) (user_feedback_history ts usr)
          (embedded_tasks ts))"

text \<open>
  The \<^verbatim>\<open>try\<close> block as a whole: no task when the model is not loaded (the exception is
  caught) or when no active task has an embedding, the 15 best-scored tasks otherwise.
\<close>

definition ml_tasks :: "ml_service \<Rightarrow> task_store \<Rightarrow> user \<Rightarrow> task_dict list" where
  "ml_tasks ml ts usr =
     (case sentence_model ml of
        None \<Rightarrow> []
      | Some encode \<Rightarrow>
          if embedded_tasks ts = [] then []
          else map (\<lambda>(t, score). to_task_dict ts usr (MLRecommended score) t)
                 (take 15 (task_scores encode ts usr)))"

subsection \<open>The fallback strategies\<close>

text \<open>
  The loop shared by the two category strategies: a task is appended while fewer than 15
  are selected and its id is not yet among them.
\<close>

fun append_new ::
  "(task \<Rightarrow> task_dict) \<Rightarrow> task list \<Rightarrow> task_dict list \<Rightarrow> task_dict list" where
  "append_new mk [] selected = selected"
| "append_new mk (t # ts) selected =
     append_new mk ts
       (if length selected < 15
           \<and> \<not> list_ex (\<lambda>d. task_id (td_task d) = task_id t) selected
        then selected @ [mk t] else selected)"

definition category_tasks :: "task_store \<Rightarrow> string \<Rightarrow> task list" where
  "category_tasks ts c =
     filter (\<lambda>t. task_category t = Some c \<and> task_is_active t) (tasks ts)"

fun interest_strategy ::
  "task_store \<Rightarrow> user \<Rightarrow> string list \<Rightarrow> task_dict list \<Rightarrow> task_dict list" where
  "interest_strategy ts usr [] selected = selected"
| "interest_strategy ts usr (interest # interests) selected =
     interest_strategy ts usr interests
       (append_new (to_task_dict ts usr (InterestTask interest))
          (take 10 (category_tasks ts interest)) selected)"

text \<open>
  The table \<^verbatim>\<open>interest_mapping\<close> with the categories of each key; the tags that the
  source lists beside them are collected but never read.
\<close>

definition interest_mapping :: "(string \<times> string list) list" where
  "interest_mapping =
     [(''web development'', [''Web Development'']),
      (''data science'', [''Data Science'']),
      (''python'', [''Python'']),
      (''machine learning'', [''Machine Learning''])]"

definition matched_categories :: "string \<Rightarrow> string list" where
  "matched_categories interest =
     concat (map snd (filter (\<lambda>m. py_in (fst m) (py_lower interest)) interest_mapping))"

fun category_loop ::
  "task_store \<Rightarrow> user \<Rightarrow> string \<Rightarrow> string list \<Rightarrow> task_dict list \<Rightarrow> task_dict list" where
  "category_loop ts usr interest [] selected = selected"
| "category_loop ts usr interest (category # categories) selected =
     category_loop ts usr interest categories
       (append_new (to_task_dict ts usr (CategoryTask category interest))
          (take 3 (category_tasks ts category)) selected)"

fun mapping_strategy ::
  "task_store \<Rightarrow> user \<Rightarrow> string list \<Rightarrow> task_dict list \<Rightarrow> task_dict list" where
  "mapping_strategy ts usr [] selected = selected"
| "mapping_strategy ts usr (interest # interests) selected =
     mapping_strategy ts usr interests
       (category_loop ts usr interest (matched_categories interest) selected)"

definition skill_or_beginner :: "user \<Rightarrow> string" where
  "skill_or_beginner usr =
     (case user_skill_level usr of
        None \<Rightarrow> ''Beginner''
      | Some s \<Rightarrow> if s = [] then ''Beginner'' else s)"

definition skill_strategy :: "task_store \<Rightarrow> user \<Rightarrow> task_dict list \<Rightarrow> task_dict list" where
  "skill_strategy ts usr selected =
     (let existing_task_ids = map (\<lambda>d. task_id (td_task d)) selected;
          remaining_slots = 15 - length selected;
          default_tasks =
            take remaining_slots
              (filter (\<lambda>t. task_is_active t
                            \<and> task_skill_level t = Some (skill_or_beginner usr)
                            \<and> task_id t \<notin> set existing_task_ids)
                 (tasks ts))
      in selected @ map (to_task_dict ts usr (SuitableFor (skill_or_beginner usr))) default_tasks)"

definition fallback_strategies :: "task_store \<Rightarrow> user \<Rightarrow> task_dict list" where
  "fallback_strategies ts usr =
     (let selected = [];
          selected = (if user_interests usr \<noteq> []
                      then interest_strategy ts usr (user_interests usr) selected
                      else selected);
          selected = (if length selected < 10 \<and> user_interests usr \<noteq> []
                      then mapping_strategy ts usr (user_interests usr) selected
                      else selected);
          selected = (if length selected < 15 then skill_strategy ts usr selected
                      else selected)
      in selected)"

subsection \<open>The final fill and the route\<close>

text \<open>
  The reason of a filled-in task reads \<^verbatim>\<open>task.tags.lower()\<close>, which raises
  \<^verbatim>\<open>AttributeError\<close> for a task without tags.
\<close>

definition tag_reason :: "task \<Rightarrow> error + task_reason" where
  "tag_reason t =
     (case task_tags t of
        None \<Rightarrow> Inl AttributeError
      | Some tags \<Rightarrow>
          let l = py_lower tags in
          Inr (if list_ex (\<lambda>tag. py_in tag l) [''python'', ''programming'']
               then ProgrammingFundamentals
               else if list_ex (\<lambda>tag. py_in tag l) [''machine-learning'', ''ml'']
               then BuildMLSkills
               else if list_ex (\<lambda>tag. py_in tag l) [''data'', ''visualization'']
               then DataAnalysisSkills
               else PopularTask))"

fun fill_loop :: "task_store \<Rightarrow> user \<Rightarrow> task list \<Rightarrow> task_dict list \<Rightarrow> error + task_dict list" where
  "fill_loop ts usr [] selected = Inr selected"
| "fill_loop ts usr (t # fallback_tasks) selected =
     (case tag_reason t of
        Inl err \<Rightarrow> Inl err
      | Inr reason \<Rightarrow> fill_loop ts usr fallback_tasks (selected @ [to_task_dict ts usr reason t]))"

definition final_fill :: "task_store \<Rightarrow> user \<Rightarrow> task_dict list \<Rightarrow> error + task_dict list" where
  "final_fill ts usr selected =
     (if length selected < 10 then
        let remaining_slots = 15 - length selected;
            existing_task_ids = map (\<lambda>d. task_id (td_task d)) selected;
            fallback_tasks =
              take remaining_slots
                (filter (\<lambda>t. task_is_active t \<and> task_id t \<notin> set existing_task_ids) (tasks ts))
        in fill_loop ts usr fallback_tasks selected
      else Inr selected)"

text \<open>
  \<^verbatim>\<open>get_recommended_tasks\<close>: status 403 for another user's id, status 500 when an
  exception reaches the outer handler, the list of tasks otherwise.
\<close>

definition get_recommended_tasks ::
  "ml_service \<Rightarrow> task_store \<Rightarrow> user \<Rightarrow> string \<Rightarrow> response" where
  "get_recommended_tasks ml ts current_user uid =
     (if user_id current_user \<noteq> uid then AccessDenied
      else
        let selected = ml_tasks ml ts current_user;
            selected = (if selected = [] then fallback_strategies ts current_user else selected)
        in case final_fill ts current_user selected of
             Inl err \<Rightarrow> ServerError
           | Inr selected \<Rightarrow> Success selected)"

subsection \<open>The feedback re-ranker's contract\<close>









text \<open>
  A learner, an encoder that tells her interests from other text, and task stores for
  concrete runs. In each store \<open>zoe\<close> has found task \<open>t1\<close> helpful. The second store
  has two more tasks, one with the embedding of \<open>t1\<close> and one orthogonal to it. In the
  third store the embedding of \<open>t1\<close> has three components instead of two.
\<close>

definition zoe :: user where
  "zoe = \<lparr>user_id = ''zoe'', user_interests = [''python'', ''basics''],
          user_skill_level = Some ''Beginner'', user_interactions = []\<rparr>"

definition topic_encoder :: "string \<Rightarrow> real list" where
  "topic_encoder text = (if text = ''python basics'' then [1, 0] else [0, 1])"

definition ml_topic :: ml_service where
  "ml_topic = \<lparr>sentence_model = Some topic_encoder\<rparr>"

definition mk_task :: "string \<Rightarrow> real list \<Rightarrow> task" where
  "mk_task i e =
     \<lparr>task_id = i, task_tags = Some ''python basics'', task_category = Some ''python'',
      task_skill_level = Some ''Beginner'', task_embedding = Some e, task_is_active = True\<rparr>"

definition zoe_feedback :: task_feedback where
  "zoe_feedback =
     \<lparr>tf_user = ''zoe'', tf_task_id = ''t1'', tf_helpful = True, tf_difficulty_rating = None\<rparr>"

definition done_store :: task_store where
  "done_store = \<lparr>tasks = [mk_task ''t1'' [1, 0]], task_feedbacks = [zoe_feedback]\<rparr>"

definition rerank_store :: task_store where
  "rerank_store =
     \<lparr>tasks = [mk_task ''t1'' [1, 0], mk_task ''t2'' [1, 0], mk_task ''t3'' [0, 1]],
      task_feedbacks = [zoe_feedback]\<rparr>"



section \<open>Properties of the cold start\<close>















text \<open>
  C10. \<^verbatim>\<open>get_cold_start_recommendations\<close> never reads its user argument: two user
  profiles get the same list from the same store and limit.
\<close>

theorem cold_start_ignores_user:
  "get_cold_start_recommendations db usr1 limit = get_cold_start_recommendations db usr2 limit"
  by (simp add: get_cold_start_recommendations_def)





section \<open>Properties of the content-based scorer\<close>

lemma interest_overlap_code:
  "interest_overlap r is = length (remdups (filter (\<lambda>t. t \<in> set is) (res_tags r)))"
proof -
  have "set (res_tags r) \<inter> set is = set (remdups (filter (\<lambda>t. t \<in> set is) (res_tags r)))"
    by auto
  then show ?thesis
    unfolding interest_overlap_def by (simp only: distinct_card[OF distinct_remdups])
qed

lemma set_py_slice_to: "set (py_slice_to k xs) \<subseteq> set xs"
  by (auto simp: py_slice_to_def dest: in_set_takeD)

lemma content_score_eq_formula: "content_score usr r = content_score_formula usr r"
  by (simp add: content_score_def content_score_formula_def interest_overlap_def Let_def)

lemma content_candidate_member:
  "x \<in> set (content_candidate usr r) \<Longrightarrow>
     rec_resource x = r \<and> recommendation_score x = content_score usr r \<and> 0 < content_score usr r"
  by (auto simp: content_candidate_def mk_rec_def split: if_splits)

lemma content_based_member:
  assumes "x \<in> set (apply_content_based_filtering usr rs limit)"
  shows "rec_resource x \<in> set rs
         \<and> recommendation_score x = content_score usr (rec_resource x)
         \<and> 0 < recommendation_score x"
proof -
  from assms have "x \<in> set (sort_key (\<lambda>x. - recommendation_score x)
                       (concat (map (content_candidate usr) (take (nat (limit * 2)) rs))))"
    unfolding apply_content_based_filtering_def Let_def
    by (rule subsetD[OF set_py_slice_to])
  then have "x \<in> set (concat (map (content_candidate usr) (take (nat (limit * 2)) rs)))"
    by (simp only: set_sort)
  then obtain r where r: "r \<in> set (take (nat (limit * 2)) rs)" "x \<in> set (content_candidate usr r)"
    by auto
  from content_candidate_member[OF r(2)] in_set_takeD[OF r(1)] show ?thesis by simp
qed

text \<open>
  C2. The content-based score of every item is
  \<open>2 * |tags \<inter> interests| + (3 if difficulty = skill level) + rating + min (likes / 10) 2\<close>;
  every entry of the content-based results carries this score of its resource, and the
  score is strictly positive; a candidate whose score is not positive is not in the results.
\<close>

theorem content_based_score:
  "content_score usr r = content_score_formula usr r
   \<and> (\<forall>x \<in> set (apply_content_based_filtering usr rs limit).
         rec_resource x \<in> set rs
         \<and> recommendation_score x = content_score_formula usr (rec_resource x)
         \<and> 0 < content_score_formula usr (rec_resource x))
   \<and> (\<forall>c \<in> set rs. content_score_formula usr c \<le> 0 \<longrightarrow>
         c \<notin> rec_resource ` set (apply_content_based_filtering usr rs limit))"
proof (intro conjI ballI impI)
  show "content_score usr r = content_score_formula usr r"
    by (rule content_score_eq_formula)
next
  fix x assume x: "x \<in> set (apply_content_based_filtering usr rs limit)"
  from content_based_member[OF x]
  show "rec_resource x \<in> set rs"
    and "recommendation_score x = content_score_formula usr (rec_resource x)"
    and "0 < content_score_formula usr (rec_resource x)"
    by (simp_all add: content_score_eq_formula)
next
  fix c assume c: "content_score_formula usr c \<le> 0"
  show "c \<notin> rec_resource ` set (apply_content_based_filtering usr rs limit)"
  proof
    assume "c \<in> rec_resource ` set (apply_content_based_filtering usr rs limit)"
    then obtain x where "x \<in> set (apply_content_based_filtering usr rs limit)" "rec_resource x = c"
      by auto
    with content_based_member[of x usr rs limit] c show False
      by (simp add: content_score_eq_formula)
  qed
qed

lemma content_run:
  "apply_content_based_filtering ann [dull_resource, py_resource] 2 =
     [mk_rec ''Matches 1 of your interests; Matches your skill level'' 9 py_resource]"
  by (simp add: apply_content_based_filtering_def content_candidate_def content_score_def
      content_reasons_def interest_overlap_code py_slice_to_def str_nat.simps
      mk_rec_def ann_def py_resource_def dull_resource_def mk_resource_def Let_def)

theorem content_based_score_witness:
  "mk_rec ''Matches 1 of your interests; Matches your skill level'' 9 py_resource
     \<in> set (apply_content_based_filtering ann [dull_resource, py_resource] 2)
   \<and> content_score_formula ann py_resource = 9
   \<and> dull_resource \<in> set [dull_resource, py_resource]
   \<and> content_score_formula ann dull_resource \<le> 0
   \<and> dull_resource \<notin> rec_resource ` set (apply_content_based_filtering ann [dull_resource, py_resource] 2)"
proof -
  let ?x = "mk_rec ''Matches 1 of your interests; Matches your skill level'' 9 py_resource"
  let ?out = "apply_content_based_filtering ann [dull_resource, py_resource] 2"
  note t = content_based_score[of ann py_resource "[dull_resource, py_resource]" 2]
  have m: "?x \<in> set ?out" by (simp add: content_run)
  have d: "dull_resource \<in> set [dull_resource, py_resource]" by simp
  have z: "content_score_formula ann dull_resource \<le> 0"
    by (simp add: content_score_formula_def ann_def dull_resource_def mk_resource_def)
  from t m have "recommendation_score ?x = content_score_formula ann (rec_resource ?x)" by blast
  then have n: "content_score_formula ann py_resource = 9" by (simp add: mk_rec_def)
  from t d z have "dull_resource \<notin> rec_resource ` set ?out" by blast
  with m n d z show ?thesis by blast
qed

section \<open>Properties of the collaborative filter and of the orchestrator\<close>

lemma length_py_slice_to: "0 \<le> k \<Longrightarrow> length (py_slice_to k xs) \<le> nat k"
  by (simp add: py_slice_to_def)

lemma personalized_length:
  "0 \<le> limit \<Longrightarrow> length (get_personalized_recommendations db usr limit fo) \<le> nat limit"
  unfolding get_personalized_recommendations_def Let_def by (rule length_py_slice_to)

text \<open>
  C6 at a concrete store. \<open>ann_seen\<close> has already interacted with resource \<open>r1\<close>; her
  peer \<open>bob\<close> found it helpful. The collaborative filter returns \<open>r1\<close> to her: it never
  reads the candidate list that excludes the resources she interacted with.
\<close>

theorem collaborative_returns_interacted:
  "rec_ids (apply_collaborative_filtering peer_store ann_seen [] 5) = [''r1'']
   \<and> ''r1'' \<in> set (user_interactions ann_seen)"
  by (simp add: apply_collaborative_filtering_def similar_user_ids_def similar_user_def
      liked_feedback_def find_resource_def collaborative_rec_def py_slice_to_def rec_ids_def
      mk_rec_def peer_store_def py_resource_def mk_resource_def ann_def ann_seen_def bob_def
      Let_def)

text \<open>
  C1 at a concrete store. The only candidate \<open>r1\<close> is recommended by the collaborative
  filter and then again by the content-based fallback, so with \<open>limit = 2\<close> the result
  holds the same item id twice.
\<close>

theorem personalized_duplicate_ids:
  "rec_ids (get_personalized_recommendations peer_store ann 2 None) = [''r1'', ''r1'']"
  by (simp add: get_personalized_recommendations_def apply_collaborative_filtering_def
      apply_content_based_filtering_def content_candidate_def content_score_def
      content_reasons_def interest_overlap_code candidate_query_def flt_get_def
      filters_truthy_def order_by_rating_likes_def similar_user_ids_def similar_user_def
      liked_feedback_def find_resource_def collaborative_rec_def py_slice_to_def rec_ids_def
      mk_rec_def peer_store_def py_resource_def mk_resource_def ann_def bob_def Let_def)


section \<open>Properties of the semantic search\<close>

lemma sorted_desc_sort_key:
  fixes f :: "'a \<Rightarrow> real"
  shows "sorted_wrt (\<lambda>a b. f b \<le> f a) (sort_key (\<lambda>x. - f x) xs)"
proof -
  have "sorted (map (\<lambda>x. - f x) (sort_key (\<lambda>x. - f x) xs))" by (rule sorted_sort_key)
  then show ?thesis by (simp add: sorted_map)
qed

lemma stable_desc_sort_key:
  fixes f :: "'a \<Rightarrow> real"
  shows "filter (\<lambda>x. f x = s) (sort_key (\<lambda>x. - f x) xs) = filter (\<lambda>x. f x = s) xs"
proof -
  have "filter (\<lambda>x. - f x = - s) (sort_key (\<lambda>x. - f x) xs) = filter (\<lambda>x. - f x = - s) xs"
    by (rule sort_key_stable)
  then show ?thesis by simp
qed

lemma similarities_resources:
  "similarities q rs = Inr hits \<Longrightarrow>
   map hit_resource hits =
     filter has_embedding rs"
proof (induction rs arbitrary: hits)
  case Nil
  then show ?case by simp
next
  case (Cons r rs)
  show ?case
  proof (cases "has_embedding r")
    case False
    with Cons show ?thesis
      by (auto simp: has_embedding_def split: option.splits)
  next
    case True
    then obtain e where e: "res_embedding r = Some e" "e \<noteq> []"
      by (auto simp: has_embedding_def split: option.splits)
    with Cons.prems obtain s hs where
      "similarities q rs = Inr hs" "hits = \<lparr>hit_resource = r, similarity = s\<rparr> # hs"
      by (auto split: sum.splits)
    with Cons.IH[of hs] True show ?thesis by simp
  qed
qed

lemma ml_semantic_search_cases:
  "ml_semantic_search ml query rs top_k = []
   \<or> (\<exists>encode hits. sentence_model ml = Some encode \<and> similarities (encode query) rs = Inr hits
        \<and> ml_semantic_search ml query rs top_k =
            py_slice_to top_k (sort_key (\<lambda>h. - similarity h) hits))"
  by (auto simp: ml_semantic_search_def split: option.splits sum.splits)

lemma cosine_similarity_unit: "cosine_similarity [1, 0] [1, 0] = Inr 1"
  by (simp add: cosine_similarity_def cosine_def normalize_def row_norm_def)

lemma cosine_similarity_mismatch: "cosine_similarity [1, 0] [1, 0, 0] = Inl ValueError"
  by (simp add: cosine_similarity_def)

lemma tie_run:
  "ml_semantic_search ml_up ''python'' [low_rated, high_rated] 10 =
     [\<lparr>hit_resource = low_rated, similarity = 1\<rparr>,
      \<lparr>hit_resource = high_rated, similarity = 1\<rparr>]"
  by (simp add: ml_semantic_search_def ml_up_def unit_encoder_def low_rated_def high_rated_def
      with_embedding_def mk_resource_def cosine_similarity_unit py_slice_to_def)

text \<open>
  C3, as the code has it. For \<open>top_k \<ge> 0\<close> the search returns at most \<open>top_k\<close> hits,
  sorted by similarity, non-increasing. Nothing breaks ties by rating, likes or id: the
  hits of one similarity are the first ones of that similarity in the candidate list, in
  the order of that list.
\<close>

theorem semantic_search_ranking:
  assumes k: "0 \<le> top_k"
  shows "length (ml_semantic_search ml query rs top_k) \<le> nat top_k
     \<and> sorted_wrt (\<lambda>a b. similarity b \<le> similarity a) (ml_semantic_search ml query rs top_k)
     \<and> (\<forall>encode hits s.
           sentence_model ml = Some encode \<and> rs \<noteq> []
           \<and> similarities (encode query) rs = Inr hits \<longrightarrow>
             map hit_resource hits =
               filter has_embedding rs
             \<and> prefix (filter (\<lambda>h. similarity h = s) (ml_semantic_search ml query rs top_k))
                  (filter (\<lambda>h. similarity h = s) hits))"
proof (intro conjI allI impI)
  let ?out = "ml_semantic_search ml query rs top_k"
  from ml_semantic_search_cases[of ml query rs top_k]
  consider "?out = []"
    | hits where "?out = take (nat top_k) (sort_key (\<lambda>h. - similarity h) hits)"
    using k by (auto simp: py_slice_to_def)
  note c = this
  show "length ?out \<le> nat top_k"
    using c by cases simp_all
  show "sorted_wrt (\<lambda>a b. similarity b \<le> similarity a) ?out"
  proof (use c in cases)
    case 1
    then show ?thesis by simp
  next
    case (2 hits)
    show ?thesis unfolding 2 by (rule sorted_wrt_take[OF sorted_desc_sort_key])
  qed
next
  fix encode hits s
  assume a: "sentence_model ml = Some encode \<and> rs \<noteq> []
             \<and> similarities (encode query) rs = Inr hits"
  then show "map hit_resource hits =
               filter has_embedding rs"
    by (intro similarities_resources[of "encode query"]) simp
  from a k have o: "ml_semantic_search ml query rs top_k =
                    take (nat top_k) (sort_key (\<lambda>h. - similarity h) hits)"
    by (simp add: ml_semantic_search_def py_slice_to_def)
  have "prefix (filter (\<lambda>h. similarity h = s) (take (nat top_k) (sort_key (\<lambda>h. - similarity h) hits)))
          (filter (\<lambda>h. similarity h = s) (sort_key (\<lambda>h. - similarity h) hits))"
    by (rule filter_mono_prefix[OF take_is_prefix])
  then show "prefix (filter (\<lambda>h. similarity h = s) (ml_semantic_search ml query rs top_k))
               (filter (\<lambda>h. similarity h = s) hits)"
    unfolding o stable_desc_sort_key .
qed

theorem semantic_search_ranking_witness:
  "(0::int) \<le> 10
   \<and> sentence_model ml_up = Some unit_encoder \<and> [low_rated, high_rated] \<noteq> []
   \<and> similarities (unit_encoder ''python'') [low_rated, high_rated] =
        Inr [\<lparr>hit_resource = low_rated, similarity = 1\<rparr>,
             \<lparr>hit_resource = high_rated, similarity = 1\<rparr>]
   \<and> length (ml_semantic_search ml_up ''python'' [low_rated, high_rated] 10) \<le> nat 10
   \<and> map hit_resource [\<lparr>hit_resource = low_rated, similarity = 1\<rparr>,
                         \<lparr>hit_resource = high_rated, similarity = 1\<rparr>] =
        filter has_embedding [low_rated, high_rated]
   \<and> prefix (filter (\<lambda>h. similarity h = 1)
               (ml_semantic_search ml_up ''python'' [low_rated, high_rated] 10))
        (filter (\<lambda>h. similarity h = 1)
           [\<lparr>hit_resource = low_rated, similarity = 1\<rparr>,
            \<lparr>hit_resource = high_rated, similarity = 1\<rparr>])"
proof -
  let ?hits = "[\<lparr>hit_resource = low_rated, similarity = 1\<rparr>,
                \<lparr>hit_resource = high_rated, similarity = 1\<rparr>]"
  have k: "(0::int) \<le> 10" by simp
  have m: "sentence_model ml_up = Some unit_encoder" by (simp add: ml_up_def)
  have n: "[low_rated, high_rated] \<noteq> []" by simp
  have s: "similarities (unit_encoder ''python'') [low_rated, high_rated] = Inr ?hits"
    by (simp add: unit_encoder_def low_rated_def high_rated_def with_embedding_def
        mk_resource_def cosine_similarity_unit)
  note t = semantic_search_ranking[OF k, of ml_up "''python''" "[low_rated, high_rated]"]
  from t have l: "length (ml_semantic_search ml_up ''python'' [low_rated, high_rated] 10) \<le> nat 10"
    by blast
  from t m n s have
    "map hit_resource ?hits = filter has_embedding [low_rated, high_rated]
     \<and> prefix (filter (\<lambda>h. similarity h = 1)
                 (ml_semantic_search ml_up ''python'' [low_rated, high_rated] 10))
          (filter (\<lambda>h. similarity h = 1) ?hits)"
    by blast
  with k m n s l show ?thesis by blast
qed

text \<open>
  The claim as written fails: two candidates of equal similarity come back in the order
  of the candidate list, the one rated 1 before the one rated 5.
\<close>

theorem semantic_search_tie_counterexample:
  "\<not> sorted_wrt ranked_before (ml_semantic_search ml_up ''python'' [low_rated, high_rated] 10)"
  unfolding tie_run
  by (simp add: ranked_before_def low_rated_def high_rated_def with_embedding_def
      mk_resource_def)

text \<open>
  C9 at a concrete candidate list. The third candidate's embedding has three components,
  the query's has two: the search over all three candidates returns nothing, although the
  first two candidates are well formed and alone give two hits.
\<close>

theorem malformed_embedding_aborts_search:
  "ml_semantic_search ml_up ''python'' [low_rated, high_rated, malformed] 10 = []
   \<and> ml_semantic_search ml_up ''python'' [low_rated, high_rated] 10 =
       [\<lparr>hit_resource = low_rated, similarity = 1\<rparr>,
        \<lparr>hit_resource = high_rated, similarity = 1\<rparr>]"
  by (simp add: ml_semantic_search_def ml_up_def unit_encoder_def low_rated_def high_rated_def
      malformed_def with_embedding_def mk_resource_def cosine_similarity_unit
      cosine_similarity_mismatch py_slice_to_def)

text \<open>
  C8 at a concrete store. The sentence model is not loaded and both resources of the
  store have an embedding and the tag python: the semantic search returns nothing and
  does not fall back, although the keyword search finds both resources for the query.
\<close>

theorem unavailable_model_no_fallback:
  "resources embedded_store \<noteq> []
   \<and> semantic_search ml_down embedded_store ''Python'' 10 = []
   \<and> map search_score (keyword_search embedded_store ''Python'' 10) = [2, 2]"
  by (simp add: semantic_search_def ml_semantic_search_def ml_down_def embedded_store_def
      keyword_search_def keyword_score_def py_lower_def py_split_def is_space_def
      py_slice_to_def low_rated_def high_rated_def with_embedding_def mk_resource_def
      str_nat.simps Let_def)

section \<open>Properties of the task recommendations\<close>

























lemma cosine_similarity_orthogonal: "cosine_similarity [1, 0] [0, 1] = Inr 0"
  by (simp add: cosine_similarity_def cosine_def normalize_def row_norm_def)

lemma cosine_similarity_orthogonal_rev: "cosine_similarity [0, 1] [1, 0] = Inr 0"
  by (simp add: cosine_similarity_def cosine_def normalize_def row_norm_def)

lemma zoe_query: "topic_encoder (interest_query zoe) = [1, 0]"
  by (simp add: interest_query_def zoe_def topic_encoder_def)

lemma done_run:
  "get_recommended_tasks ml_down done_store zoe ''zoe'' =
     Success [\<lparr>td_task = mk_task ''t1'' [1, 0], completed = True,
               td_reason = InterestTask ''python''\<rparr>]"
  by (simp add: get_recommended_tasks_def ml_tasks_def ml_down_def fallback_strategies_def
      category_tasks_def matched_categories_def interest_mapping_def py_lower_def
      skill_strategy_def skill_or_beginner_def final_fill_def to_task_dict_def has_feedback_def
      done_store_def mk_task_def zoe_feedback_def zoe_def Let_def)

lemma scores_run:
  "task_scores topic_encoder rerank_store zoe =
     [(mk_task ''t2'' [1, 0], 7 / 5), (mk_task ''t3'' [0, 1], 1 / 10)]"
  unfolding task_scores_def zoe_query
  by (simp add: embedded_tasks_def user_feedback_history_def
      final_score_def find_task_def cosine_similarity_unit cosine_similarity_orthogonal
      cosine_similarity_orthogonal_rev rerank_store_def mk_task_def zoe_feedback_def zoe_def
      Let_def)


lemma ml_run:
  "ml_tasks ml_topic rerank_store zoe =
     [\<lparr>td_task = mk_task ''t2'' [1, 0], completed = False, td_reason = MLRecommended (7 / 5)\<rparr>,
      \<lparr>td_task = mk_task ''t3'' [0, 1], completed = False, td_reason = MLRecommended (1 / 10)\<rparr>]"
proof -
  have e: "embedded_tasks rerank_store \<noteq> []"
    by (simp add: embedded_tasks_def rerank_store_def mk_task_def)
  have "ml_tasks ml_topic rerank_store zoe =
          map (\<lambda>(t, score). to_task_dict rerank_store zoe (MLRecommended score) t)
            (take 15 (task_scores topic_encoder rerank_store zoe))"
    using e by (simp add: ml_tasks_def ml_topic_def)
  also have "\<dots> = [to_task_dict rerank_store zoe (MLRecommended (7 / 5)) (mk_task ''t2'' [1, 0]),
                   to_task_dict rerank_store zoe (MLRecommended (1 / 10)) (mk_task ''t3'' [0, 1])]"
    unfolding scores_run by simp
  finally show ?thesis
    by (simp add: to_task_dict_def has_feedback_def rerank_store_def mk_task_def
        zoe_feedback_def zoe_def)
qed

lemma route_run:
  "get_recommended_tasks ml_topic rerank_store zoe ''zoe'' =
     Success [\<lparr>td_task = mk_task ''t2'' [1, 0], completed = False, td_reason = MLRecommended (7 / 5)\<rparr>,
              \<lparr>td_task = mk_task ''t3'' [0, 1], completed = False, td_reason = MLRecommended (1 / 10)\<rparr>,
              \<lparr>td_task = mk_task ''t1'' [1, 0], completed = True, td_reason = ProgrammingFundamentals\<rparr>]"
  unfolding get_recommended_tasks_def ml_run
  by (simp add: final_fill_def tag_reason_def py_lower_def to_task_dict_def has_feedback_def
      rerank_store_def mk_task_def zoe_feedback_def zoe_def Let_def)






text \<open>
  C5 at two concrete stores. \<open>zoe\<close> has given feedback for task \<open>t1\<close>. With the sentence
  model not loaded, the interest strategy returns \<open>t1\<close> to her. With the model loaded,
  the embedding-based stage skips \<open>t1\<close> and the final fill of the same request returns
  it after the two scored tasks. Both times the entry says that she completed it.
\<close>

theorem completed_task_recommended:
  "has_feedback done_store zoe ''t1''
   \<and> get_recommended_tasks ml_down done_store zoe ''zoe'' =
        Success [\<lparr>td_task = mk_task ''t1'' [1, 0], completed = True,
                  td_reason = InterestTask ''python''\<rparr>]
   \<and> has_feedback rerank_store zoe ''t1''
   \<and> get_recommended_tasks ml_topic rerank_store zoe ''zoe'' =
        Success [\<lparr>td_task = mk_task ''t2'' [1, 0], completed = False,
                  td_reason = MLRecommended (7 / 5)\<rparr>,
                 \<lparr>td_task = mk_task ''t3'' [0, 1], completed = False,
                  td_reason = MLRecommended (1 / 10)\<rparr>,
                 \<lparr>td_task = mk_task ''t1'' [1, 0], completed = True,
                  td_reason = ProgrammingFundamentals\<rparr>]"
  using done_run route_run
  by (simp add: has_feedback_def done_store_def rerank_store_def zoe_feedback_def zoe_def)

end
